theory Spec2Isabelle
  imports Complex_Main "HOL-Library.Sublist"
begin

section \<open>Strings\<close>

text \<open>
  The dashboard script works on JavaScript strings. They are modelled as \<open>string\<close>, each
  \<open>char\<close> read as one code point in the range U+0000 .. U+00FF. In that range
  \<^item> the white space removed by \<open>String.prototype.trim\<close> and matched by the regular
    expression class \<open>\s\<close> is TAB, LF, VT, FF, CR, SPACE and NO-BREAK SPACE;
  \<^item> \<open>toLowerCase\<close> maps A..Z and the accented capitals U+00C0 .. U+00DE (without the
    multiplication sign U+00D7) to the code point 32 above, and nothing else;
  \<^item> the class \<open>\d\<close> is 0..9.
  Numbers are modelled as \<open>real\<close>: the rounding of IEEE doubles is outside the model.
\<close>

definition isSpace :: "char \<Rightarrow> bool" where
  "isSpace c = (c \<in> set [CHR 0x09, CHR 0x0A, CHR 0x0B, CHR 0x0C, CHR 0x0D, CHR 0x20, CHR 0xA0])"

definition isDigit :: "char \<Rightarrow> bool" where
  "isDigit c = (c \<in> set ''0123456789'')"

definition lowerChar :: "char \<Rightarrow> char" where
  "lowerChar c =
     (let n = (of_char c :: nat)
      in if (65 \<le> n \<and> n \<le> 90) \<or> (192 \<le> n \<and> n \<le> 222 \<and> n \<noteq> 215)
         then char_of (n + 32) else c)"

definition toLowerCase :: "string \<Rightarrow> string" where
  "toLowerCase s = map lowerChar s"

definition trim :: "string \<Rightarrow> string" where
  "trim s = rev (dropWhile isSpace (rev (dropWhile isSpace s)))"

text \<open>\<open>includesStr s t\<close> is \<open>s.includes(t)\<close>: \<open>t\<close> occurs in \<open>s\<close> as a contiguous run.\<close>

fun includesStr :: "string \<Rightarrow> string \<Rightarrow> bool" where
  "includesStr [] t = (t = [])"
| "includesStr (c # s) t = (prefix t (c # s) \<or> includesStr s t)"

section \<open>The location database\<close>

datatype category =
  Business | Shopping | Transit | Education | Healthcare | Residential | Leisure | Mixed
  | Custom | Unknown

record entry =
  lat :: real
  lng :: real
  type :: category

text \<open>
  \<open>locationDatabase\<close> is an object literal; \<open>Object.entries\<close> lists its own properties in
  insertion order, so it is an association list. The functions below take the database as
  an argument, the constant is the one of the script.
\<close>

type_synonym gazetteer = "(string \<times> entry) list"

definition locationDatabase :: gazetteer where
  "locationDatabase =
    [(''downtown plaza'', \<lparr>lat = 3, lng = 3, type = Business\<rparr>),
     (''shopping mall'', \<lparr>lat = 8, lng = 7, type = Shopping\<rparr>),
     (''train station'', \<lparr>lat = 12, lng = 2, type = Transit\<rparr>),
     (''office complex'', \<lparr>lat = 6, lng = 11, type = Business\<rparr>),
     (''city park'', \<lparr>lat = 15, lng = 8, type = Leisure\<rparr>),
     (''downtown'', \<lparr>lat = 3, lng = 3, type = Business\<rparr>),
     (''mall'', \<lparr>lat = 8, lng = 7, type = Shopping\<rparr>),
     (''station'', \<lparr>lat = 12, lng = 2, type = Transit\<rparr>),
     (''office'', \<lparr>lat = 6, lng = 11, type = Business\<rparr>),
     (''park'', \<lparr>lat = 15, lng = 8, type = Leisure\<rparr>),
     (''city center'', \<lparr>lat = 10, lng = 5, type = Business\<rparr>),
     (''main street'', \<lparr>lat = 5, lng = 5, type = Business\<rparr>),
     (''business district'', \<lparr>lat = 4, lng = 4, type = Business\<rparr>),
     (''shopping district'', \<lparr>lat = 7, lng = 6, type = Shopping\<rparr>),
     (''university area'', \<lparr>lat = 9, lng = 9, type = Education\<rparr>),
     (''hospital district'', \<lparr>lat = 11, lng = 12, type = Healthcare\<rparr>),
     (''residential area'', \<lparr>lat = 2, lng = 13, type = Residential\<rparr>),
     (''central'', \<lparr>lat = 10, lng = 15 / 2, type = Business\<rparr>),
     (''north'', \<lparr>lat = 10, lng = 12, type = Residential\<rparr>),
     (''south'', \<lparr>lat = 10, lng = 3, type = Business\<rparr>),
     (''east'', \<lparr>lat = 15, lng = 15 / 2, type = Mixed\<rparr>),
     (''west'', \<lparr>lat = 5, lng = 15 / 2, type = Mixed\<rparr>)]"

text \<open>
  A property read \<open>locationDatabase[k]\<close> finds an own property first and then walks the
  prototype chain to \<open>Object.prototype\<close>. The key read is always lower case, and the only
  lower-case names on \<open>Object.prototype\<close> are \<open>constructor\<close> and \<open>__proto__\<close>; both
  hold objects (truthy) that have no enumerable own property.
\<close>

datatype 'a property = Own 'a | Inherited | Absent

definition getProperty :: "gazetteer \<Rightarrow> string \<Rightarrow> entry property" where
  "getProperty db k =
     (case map_of db k of
        Some data \<Rightarrow> Own data
      | None \<Rightarrow> if k = ''constructor'' \<or> k = ''__proto__'' then Inherited else Absent)"

section \<open>The location parser\<close>

datatype confidence = Exact | Partial | Coordinates | Estimated

text \<open>
  The object \<open>parseLocationInput\<close> returns. A field is \<open>None\<close> where the object has no
  such property (reading it gives \<open>undefined\<close>). The fields are \<open>lat\<close>, \<open>lng\<close>,
  \<open>type\<close>, \<open>name\<close>, \<open>confidence\<close> and \<open>match\<close> of the script.
\<close>

record resolved =
  rlat :: "real option"
  rlng :: "real option"
  rtype :: "category option"
  rname :: string
  confidence :: confidence
  match :: "string option"

text \<open>
  The loop that collects \<open>partialMatches\<close>: one object is pushed for every key that
  contains the normalized text or is contained in it, in the order of \<open>Object.entries\<close>.
\<close>

fun partialMatches :: "gazetteer \<Rightarrow> string \<Rightarrow> resolved list" where
  "partialMatches [] normalizedText = []"
| "partialMatches ((key, data) # rest) normalizedText =
     (if includesStr key normalizedText \<or> includesStr normalizedText key
      then \<lparr>rlat = Some (lat data), rlng = Some (lng data), rtype = Some (type data),
             rname = key, confidence = Partial, match = Some key\<rparr>
           # partialMatches rest normalizedText
      else partialMatches rest normalizedText)"

text \<open>
  The regular expression \<open>/(\d+\.?\d*),\s*(\d+\.?\d*)/\<close>.
  \<open>matchNumber s\<close> is the greedy match of \<open>\d+\.?\d*\<close> at the start of \<open>s\<close>, with the
  rest of \<open>s\<close>. \<open>matchAt s\<close> is the match of the whole expression at the start of \<open>s\<close>:
  a shorter first group would be followed by a digit or a dot, never by the comma, and a
  shorter run of \<open>\s*\<close> would be followed by white space, never by a digit, so backtracking
  finds nothing that the greedy match misses. \<open>coordMatch s\<close> is \<open>s.match(...)\<close>: the
  match at the leftmost position that has one, as the pair of captured groups.
\<close>

definition matchNumber :: "string \<Rightarrow> (string \<times> string) option" where
  "matchNumber s =
     (let d = takeWhile isDigit s; r = dropWhile isDigit s
      in if d = [] then None
         else (case r of
                 c # r' \<Rightarrow>
                   if c = CHR ''.''
                   then Some (d @ [c] @ takeWhile isDigit r', dropWhile isDigit r')
                   else Some (d, r)
               | [] \<Rightarrow> Some (d, r)))"

definition matchAt :: "string \<Rightarrow> (string \<times> string) option" where
  "matchAt s =
     (case matchNumber s of
        None \<Rightarrow> None
      | Some (g1, r) \<Rightarrow>
          (case r of
             [] \<Rightarrow> None
           | c # r' \<Rightarrow>
               if c = CHR '','' then
                 (case matchNumber (dropWhile isSpace r') of
                    None \<Rightarrow> None
                  | Some (g2, _) \<Rightarrow> Some (g1, g2))
               else None))"

fun coordMatch :: "string \<Rightarrow> (string \<times> string) option" where
  "coordMatch [] = None"
| "coordMatch (c # s) =
     (case matchAt (c # s) of Some g \<Rightarrow> Some g | None \<Rightarrow> coordMatch s)"

text \<open>
  \<open>parseFloat\<close> on a captured group, a string of the form digits, or digits dot digits
  with the last part possibly empty: its decimal value.
\<close>

definition digitsValue :: "string \<Rightarrow> nat" where
  "digitsValue ds = foldl (\<lambda>n c. 10 * n + (of_char c - 48)) 0 ds"

definition parseFloat :: "string \<Rightarrow> real" where
  "parseFloat g =
     (let ip = takeWhile isDigit g;
          fp = (case dropWhile isDigit g of
                  c # f \<Rightarrow> if c = CHR ''.'' then takeWhile isDigit f else []
                | [] \<Rightarrow> [])
      in real (digitsValue ip) + real (digitsValue fp) / 10 ^ length fp)"

text \<open>
  \<open>Math.random\<close> is the only input of the parser besides the text and the database.
  The two draws of the last branch are the argument \<open>rnd\<close>; the browser returns
  values in \<open>[0, 1)\<close>. \<open>None\<close> is the \<open>null\<close> returned for an empty input.
\<close>

definition estimated :: "real \<times> real \<Rightarrow> string \<Rightarrow> resolved" where
  "estimated rnd locationText =
     (let randomLat = fst rnd * 20; randomLng = snd rnd * 15
      in \<lparr>rlat = Some randomLat, rlng = Some randomLng, rtype = Some Unknown,
          rname = trim locationText, confidence = Estimated, match = None\<rparr>)"

definition parseLocationInput :: "gazetteer \<Rightarrow> real \<times> real \<Rightarrow> string \<Rightarrow> resolved option" where
  "parseLocationInput db rnd locationText =
     (if locationText = [] \<or> trim locationText = [] then None
      else
        let normalizedText = trim (toLowerCase locationText)
        in case getProperty db normalizedText of
             Own data \<Rightarrow>
               Some \<lparr>rlat = Some (lat data), rlng = Some (lng data), rtype = Some (type data),
                     rname = trim locationText, confidence = Exact, match = None\<rparr>
           | Inherited \<Rightarrow>
               Some \<lparr>rlat = None, rlng = None, rtype = None,
                     rname = trim locationText, confidence = Exact, match = None\<rparr>
           | Absent \<Rightarrow>
               (case partialMatches db normalizedText of
                  m # _ \<Rightarrow> Some m
                | [] \<Rightarrow>
                    (case coordMatch locationText of
                       Some (g1, g2) \<Rightarrow>
                         let lat = parseFloat g1; lng = parseFloat g2
                         in if lat \<ge> 0 \<and> lat \<le> 20 \<and> lng \<ge> 0 \<and> lng \<le> 15
                            then Some \<lparr>rlat = Some lat, rlng = Some lng, rtype = Some Custom,
                                       rname = trim locationText, confidence = Coordinates,
                                       match = None\<rparr>
                            else Some (estimated rnd locationText)
                     | None \<Rightarrow> Some (estimated rnd locationText))))"

section \<open>The nearest known location\<close>

text \<open>
  The object \<open>findNearestLocation\<close> returns: \<open>name\<close>, \<open>lat\<close>, \<open>lng\<close> and, when it
  comes from the database, \<open>type\<close>. \<open>minDistance\<close> starts at \<open>Infinity\<close>.
\<close>

record nearest =
  nname :: string
  nlat :: real
  nlng :: real
  ntype :: "category option"

datatype distance = Finite real | Infinity

fun lessDistance :: "real \<Rightarrow> distance \<Rightarrow> bool" where
  "lessDistance d Infinity = True"
| "lessDistance d (Finite m) = (d < m)"

definition euclid :: "entry \<Rightarrow> real \<Rightarrow> real \<Rightarrow> real" where
  "euclid data lat' lng' = sqrt ((lat data - lat') ^ 2 + (lng data - lng') ^ 2)"

fun nearestLoop ::
  "gazetteer \<Rightarrow> real \<Rightarrow> real \<Rightarrow> nearest option \<times> distance \<Rightarrow> nearest option \<times> distance" where
  "nearestLoop [] lat' lng' acc = acc"
| "nearestLoop ((name, data) # rest) lat' lng' (nearestLocation, minDistance) =
     (let distance = euclid data lat' lng'
      in if lessDistance distance minDistance
         then nearestLoop rest lat' lng'
                (Some \<lparr>nname = name, nlat = lat data, nlng = lng data, ntype = Some (type data)\<rparr>,
                 Finite distance)
         else nearestLoop rest lat' lng' (nearestLocation, minDistance))"

definition findNearestLocation :: "gazetteer \<Rightarrow> real \<Rightarrow> real \<Rightarrow> nearest" where
  "findNearestLocation db lat' lng' =
     (case fst (nearestLoop db lat' lng' (None, Infinity)) of
        Some nearestLocation \<Rightarrow> nearestLocation
      | None \<Rightarrow> \<lparr>nname = ''Custom Location'', nlat = lat', nlng = lng', ntype = None\<rparr>)"

section \<open>The state of the page\<close>

text \<open>
  The globals of the script (\<open>updateInterval\<close>, \<open>userLocation\<close>) and the parts of the
  browser the script writes to: the interval timers that are armed, the views it renders,
  the \<open>last-updated\<close> text, the \<open>user-location\<close> input, the \<open>location-status\<close> text
  and the notifications shown. Timer handles are the positive numbers \<open>setInterval\<close>
  hands out. Texts shown to the user are kept as constructors, not as strings.
\<close>

record user_location =
  ulat :: "real option"
  ulng :: "real option"
  uname :: string

datatype view = SystemStats | ParkingLots | Recommendations | Junctions | Predictions | MapView

datatype 'h content = Blank | Rendered 'h | ErrorBox

datatype gps_error = PermissionDenied | PositionUnavailable | Timeout | OtherGpsError

datatype message =
  PleaseEnterLocation | LocationNotFound | LocationUpdated | FoundSimilar "string option"
  | EstimatedFor string | GeolocationUnsupported | GpsDetected string | GpsFailure gps_error
  | FailedToRefresh

datatype notification = ShowSuccess message | ShowError message

datatype status =
  NoStatus | LocationStatus confidence string | GpsPending | GpsStatus string | GpsFailed

record 'h dashboard =
  updateInterval :: "nat option"
  timers :: "nat list"
  nextTimer :: nat
  userLocation :: user_location
  inputValue :: string
  locationStatus :: status
  views :: "view \<Rightarrow> 'h content"
  lastUpdated :: "string option"
  notifications :: "notification list"

definition initial :: "'h dashboard" where
  "initial =
     \<lparr>updateInterval = None, timers = [], nextTimer = 1,
      userLocation = \<lparr>ulat = Some 3, ulng = Some 3, uname = ''Downtown Plaza''\<rparr>,
      inputValue = [], locationStatus = NoStatus, views = (\<lambda>v. Blank),
      lastUpdated = None, notifications = []\<rparr>"

definition showSuccess :: "message \<Rightarrow> 'h dashboard \<Rightarrow> 'h dashboard" where
  "showSuccess m st = st\<lparr>notifications := notifications st @ [ShowSuccess m]\<rparr>"

definition showError :: "message \<Rightarrow> 'h dashboard \<Rightarrow> 'h dashboard" where
  "showError m st = st\<lparr>notifications := notifications st @ [ShowError m]\<rparr>"

section \<open>The refresh units\<close>

text \<open>
  What a unit asks the backend, and what comes back: \<open>fetch\<close> rejects, or
  \<open>response.json()\<close> rejects, or there is a response with its \<open>ok\<close> flag and its body.
  The backend and the templates that turn a body into markup are arguments; a template
  returns \<open>None\<close> where its code throws on the body (a missing field, say).
  A thrown exception is \<open>Inl\<close>; for an \<open>async\<close> function that is a rejected promise.
  The elements the script looks up by id are taken to exist.
\<close>

datatype request =
  GetSystemStats | GetParkingStatus | GetRecommendations "real option" "real option"
  | GetJunctionStatus | GetPredictions | GetMapData

datatype 'd fetched = FetchRejects | JsonRejects | Response bool 'd

datatype js_error = NetworkError | SyntaxError | ApiError | RenderError

type_synonym 'd backend = "request \<Rightarrow> 'd fetched"

type_synonym ('d, 'h) renderer = "view \<Rightarrow> user_location \<Rightarrow> 'd \<Rightarrow> 'h option"

definition tryCatch :: "js_error + 'a \<Rightarrow> (js_error \<Rightarrow> js_error + 'a) \<Rightarrow> js_error + 'a" where
  "tryCatch body handler = (case body of Inl error \<Rightarrow> handler error | Inr v \<Rightarrow> Inr v)"

definition setView :: "view \<Rightarrow> 'h content \<Rightarrow> 'h dashboard \<Rightarrow> 'h dashboard" where
  "setView v c st = st\<lparr>views := (views st)(v := c)\<rparr>"

text \<open>The URL each unit fetches; only the recommendations depend on \<open>userLocation\<close>.\<close>

fun endpoint :: "user_location \<Rightarrow> view \<Rightarrow> request" where
  "endpoint u SystemStats = GetSystemStats"
| "endpoint u ParkingLots = GetParkingStatus"
| "endpoint u Recommendations = GetRecommendations (ulat u) (ulng u)"
| "endpoint u Junctions = GetJunctionStatus"
| "endpoint u Predictions = GetPredictions"
| "endpoint u MapView = GetMapData"

text \<open>The body of the \<open>try\<close> block that the six units share, up to the view and the URL.\<close>

definition fetchAndRender ::
  "'d backend \<Rightarrow> ('d, 'h) renderer \<Rightarrow> view \<Rightarrow> 'h dashboard \<Rightarrow> js_error + 'h dashboard" where
  "fetchAndRender backend render v st =
     (case backend (endpoint (userLocation st) v) of
        FetchRejects \<Rightarrow> Inl NetworkError
      | JsonRejects \<Rightarrow> Inl SyntaxError
      | Response ok data \<Rightarrow>
          if ok then
            (case render v (userLocation st) data of
               Some h \<Rightarrow> Inr (setView v (Rendered h) st)
             | None \<Rightarrow> Inl RenderError)
          else Inl ApiError)"

text \<open>
  The \<open>catch\<close> block of \<open>updateSystemStats\<close> and \<open>updatePredictions\<close> only logs; the
  other four replace their container by an error box.
\<close>

definition updateSystemStats :: "'d backend \<Rightarrow> ('d, 'h) renderer \<Rightarrow> 'h dashboard \<Rightarrow> js_error + 'h dashboard" where
  "updateSystemStats backend render st =
     tryCatch (fetchAndRender backend render SystemStats st) (\<lambda>error. Inr st)"

definition updateParkingLots :: "'d backend \<Rightarrow> ('d, 'h) renderer \<Rightarrow> 'h dashboard \<Rightarrow> js_error + 'h dashboard" where
  "updateParkingLots backend render st =
     tryCatch (fetchAndRender backend render ParkingLots st)
       (\<lambda>error. Inr (setView ParkingLots ErrorBox st))"

definition updateRecommendations :: "'d backend \<Rightarrow> ('d, 'h) renderer \<Rightarrow> 'h dashboard \<Rightarrow> js_error + 'h dashboard" where
  "updateRecommendations backend render st =
     tryCatch (fetchAndRender backend render Recommendations st)
       (\<lambda>error. Inr (setView Recommendations ErrorBox st))"

definition updateJunctions :: "'d backend \<Rightarrow> ('d, 'h) renderer \<Rightarrow> 'h dashboard \<Rightarrow> js_error + 'h dashboard" where
  "updateJunctions backend render st =
     tryCatch (fetchAndRender backend render Junctions st)
       (\<lambda>error. Inr (setView Junctions ErrorBox st))"

definition updatePredictions :: "'d backend \<Rightarrow> ('d, 'h) renderer \<Rightarrow> 'h dashboard \<Rightarrow> js_error + 'h dashboard" where
  "updatePredictions backend render st =
     tryCatch (fetchAndRender backend render Predictions st) (\<lambda>error. Inr st)"

definition updateMap :: "'d backend \<Rightarrow> ('d, 'h) renderer \<Rightarrow> 'h dashboard \<Rightarrow> js_error + 'h dashboard" where
  "updateMap backend render st =
     tryCatch (fetchAndRender backend render MapView st)
       (\<lambda>error. Inr (setView MapView ErrorBox st))"

text \<open>
  \<open>Promise.all\<close> over units that have all been started: every unit runs to its end
  whatever the others do, and the result is a rejection as soon as one of them rejects.
  The script has one thread and the units write to different views, so running them one
  after the other in the order of the array gives the state they leave together.
\<close>

fun promiseAll ::
  "('s \<Rightarrow> js_error + 's) list \<Rightarrow> 's \<Rightarrow> js_error option \<times> 's" where
  "promiseAll [] st = (None, st)"
| "promiseAll (u # us) st =
     (case u st of
        Inr st' \<Rightarrow> promiseAll us st'
      | Inl error \<Rightarrow> (Some error, snd (promiseAll us st)))"

definition refreshUnits ::
  "'d backend \<Rightarrow> ('d, 'h) renderer \<Rightarrow> ('h dashboard \<Rightarrow> js_error + 'h dashboard) list" where
  "refreshUnits backend render =
     [updateSystemStats backend render, updateParkingLots backend render,
      updateRecommendations backend render, updateJunctions backend render,
      updatePredictions backend render, updateMap backend render]"

definition refreshData :: "'d backend \<Rightarrow> ('d, 'h) renderer \<Rightarrow> string \<Rightarrow> 'h dashboard \<Rightarrow> 'h dashboard" where
  "refreshData backend render now st =
     (case promiseAll (refreshUnits backend render) st of
        (None, st') \<Rightarrow> st'\<lparr>lastUpdated := Some now\<rparr>
      | (Some error, st') \<Rightarrow> showError FailedToRefresh st')"

text \<open>A unit called without \<open>await\<close>: a rejection would go unhandled.\<close>

definition detached :: "('s \<Rightarrow> js_error + 's) \<Rightarrow> 's \<Rightarrow> 's" where
  "detached u st = (case u st of Inr st' \<Rightarrow> st' | Inl error \<Rightarrow> st)"

section \<open>The update timer\<close>

definition setInterval :: "'h dashboard \<Rightarrow> nat \<times> 'h dashboard" where
  "setInterval st =
     (nextTimer st, st\<lparr>timers := timers st @ [nextTimer st], nextTimer := Suc (nextTimer st)\<rparr>)"

definition clearInterval :: "nat \<Rightarrow> 'h dashboard \<Rightarrow> 'h dashboard" where
  "clearInterval h st = st\<lparr>timers := removeAll h (timers st)\<rparr>"

definition startRealTimeUpdates :: "'h dashboard \<Rightarrow> 'h dashboard" where
  "startRealTimeUpdates st =
     (case setInterval st of (h, st') \<Rightarrow> st'\<lparr>updateInterval := Some h\<rparr>)"

definition stopRealTimeUpdates :: "'h dashboard \<Rightarrow> 'h dashboard" where
  "stopRealTimeUpdates st =
     (case updateInterval st of
        None \<Rightarrow> st
      | Some h \<Rightarrow> if h \<noteq> 0 then (clearInterval h st)\<lparr>updateInterval := None\<rparr> else st)"

text \<open>The listeners for \<open>DOMContentLoaded\<close>, \<open>visibilitychange\<close> and \<open>beforeunload\<close>.\<close>

definition onDOMContentLoaded :: "'d backend \<Rightarrow> ('d, 'h) renderer \<Rightarrow> string \<Rightarrow> 'h dashboard \<Rightarrow> 'h dashboard" where
  "onDOMContentLoaded backend render now st =
     refreshData backend render now (startRealTimeUpdates st)"

definition onVisibilityChange ::
  "'d backend \<Rightarrow> ('d, 'h) renderer \<Rightarrow> string \<Rightarrow> bool \<Rightarrow> 'h dashboard \<Rightarrow> 'h dashboard" where
  "onVisibilityChange backend render now hidden st =
     (if hidden then stopRealTimeUpdates st
      else refreshData backend render now (startRealTimeUpdates st))"

definition onBeforeUnload :: "'h dashboard \<Rightarrow> 'h dashboard" where
  "onBeforeUnload st = stopRealTimeUpdates st"

section \<open>Setting the user's location\<close>

definition updateUserLocation ::
  "gazetteer \<Rightarrow> real \<times> real \<Rightarrow> 'd backend \<Rightarrow> ('d, 'h) renderer \<Rightarrow> 'h dashboard \<Rightarrow> 'h dashboard" where
  "updateUserLocation db rnd backend render st =
     (let locationText = trim (inputValue st)
      in if locationText = [] then showError PleaseEnterLocation st
         else
           (case parseLocationInput db rnd locationText of
              None \<Rightarrow> showError LocationNotFound st
            | Some parsedLocation \<Rightarrow>
                let st1 = st\<lparr>userLocation :=
                               \<lparr>ulat = rlat parsedLocation, ulng = rlng parsedLocation,
                                uname = rname parsedLocation\<rparr>,
                             locationStatus :=
                               LocationStatus (confidence parsedLocation) (rname parsedLocation)\<rparr>;
                    message =
                      (if confidence parsedLocation = Partial then FoundSimilar (match parsedLocation)
                       else if confidence parsedLocation = Estimated
                       then EstimatedFor (rname parsedLocation)
                       else LocationUpdated);
                    st2 = showSuccess message st1;
                    st3 = detached (updateRecommendations backend render) st2
                in detached (updateMap backend render) st3))"

text \<open>
  The success callback of \<open>getCurrentPosition\<close> in \<open>useCurrentLocation\<close>, with its local
  constants \<open>cityLat\<close>, \<open>cityLng\<close>, \<open>clampedLat\<close> and \<open>clampedLng\<close>.
\<close>

definition cityLat :: "real \<Rightarrow> real" where
  "cityLat lat' = ((lat' - 40) * 20) + 10"

definition cityLng :: "real \<Rightarrow> real" where
  "cityLng lng' = ((lng' + 74) * 15) + 15 / 2"

definition clampedLat :: "real \<Rightarrow> real" where
  "clampedLat lat' = max 0 (min 20 (cityLat lat'))"

definition clampedLng :: "real \<Rightarrow> real" where
  "clampedLng lng' = max 0 (min 15 (cityLng lng'))"

definition onPosition ::
  "gazetteer \<Rightarrow> 'd backend \<Rightarrow> ('d, 'h) renderer \<Rightarrow> real \<Rightarrow> real \<Rightarrow> 'h dashboard \<Rightarrow> 'h dashboard" where
  "onPosition db backend render lat' lng' st =
     (let nearestLocation = findNearestLocation db (clampedLat lat') (clampedLng lng');
          st1 = st\<lparr>inputValue := nname nearestLocation,
                   userLocation :=
                     \<lparr>ulat = Some (clampedLat lat'), ulng = Some (clampedLng lng'),
                      uname = nname nearestLocation\<rparr>,
                   locationStatus := GpsStatus (nname nearestLocation)\<rparr>;
          st2 = showSuccess (GpsDetected (nname nearestLocation)) st1;
          st3 = detached (updateRecommendations backend render) st2
      in detached (updateMap backend render) st3)"

datatype gps_result = Position real real | PositionError gps_error

definition useCurrentLocation ::
  "gazetteer \<Rightarrow> 'd backend \<Rightarrow> ('d, 'h) renderer \<Rightarrow> bool \<Rightarrow> gps_result \<Rightarrow> 'h dashboard \<Rightarrow> 'h dashboard" where
  "useCurrentLocation db backend render supported result st =
     (if \<not> supported then showError GeolocationUnsupported st
      else
        let st0 = st\<lparr>locationStatus := GpsPending\<rparr>
        in case result of
             Position lat' lng' \<Rightarrow> onPosition db backend render lat' lng' st0
           | PositionError error \<Rightarrow>
               showError (GpsFailure error) (st0\<lparr>locationStatus := GpsFailed\<rparr>))"

text \<open>
  The transform as the specification words it, to compare with the code:
  \<open>clamp(x, lo, hi)\<close> is \<open>lo\<close> below \<open>lo\<close>, \<open>hi\<close> above \<open>hi\<close>, and \<open>x\<close> in between.
\<close>

definition clamp_spec :: "real \<Rightarrow> real \<Rightarrow> real \<Rightarrow> real" where
  "clamp_spec x lo hi = (if x < lo then lo else if hi < x then hi else x)"

definition toLocalSpace_spec :: "real \<Rightarrow> real \<Rightarrow> real \<times> real" where
  "toLocalSpace_spec gpsLat gpsLng =
     (clamp_spec ((gpsLat - 40) * 20 + 10) 0 20, clamp_spec ((gpsLng + 74) * 15 + 15 / 2) 0 15)"

section \<open>Facts about strings\<close>

lemma isSpace_of_char:
  "isSpace c \<longleftrightarrow> (of_char c :: nat) \<in> {9, 10, 11, 12, 13, 32, 160}"
proof -
  have eq: "\<And>d. (c = d) = ((of_char c :: nat) = of_char d)" by simp
  show ?thesis
    unfolding isSpace_def by (simp add: eq)
qed

lemma of_char_lowerChar:
  "(of_char (lowerChar c) :: nat) =
     (let n = of_char c
      in if (65 \<le> n \<and> n \<le> 90) \<or> (192 \<le> n \<and> n \<le> 222 \<and> n \<noteq> 215) then n + 32 else n)"
  by (auto simp: lowerChar_def Let_def)

lemma isSpace_lowerChar: "isSpace (lowerChar c) = isSpace c"
  by (auto simp: isSpace_of_char of_char_lowerChar Let_def)

lemma trim_Nil_iff: "trim s = [] \<longleftrightarrow> (\<forall>c\<in>set s. isSpace c)"
proof
  assume "trim s = []"
  then have all: "\<forall>x\<in>set (dropWhile isSpace s). isSpace x"
    by (simp add: trim_def dropWhile_eq_Nil_conv)
  have "dropWhile isSpace s = []"
  proof (rule ccontr)
    assume ne: "dropWhile isSpace s \<noteq> []"
    then have "\<not> isSpace (hd (dropWhile isSpace s))" by (rule hd_dropWhile)
    moreover have "hd (dropWhile isSpace s) \<in> set (dropWhile isSpace s)" using ne by simp
    ultimately show False using all by blast
  qed
  then show "\<forall>c\<in>set s. isSpace c" by (simp add: dropWhile_eq_Nil_conv)
next
  assume "\<forall>c\<in>set s. isSpace c"
  then show "trim s = []" by (auto simp: trim_def dest: set_dropWhileD)
qed

lemma trim_toLowerCase_Nil: "trim (toLowerCase s) = [] \<longleftrightarrow> trim s = []"
  by (simp add: trim_Nil_iff toLowerCase_def isSpace_lowerChar)

lemma trim_nonempty: "trim s \<noteq> [] \<Longrightarrow> s \<noteq> []"
  by (auto simp: trim_def)

section \<open>Facts about the database\<close>

lemma distinct_keys: "distinct (map fst locationDatabase)"
  by (simp add: locationDatabase_def)

lemma keys_nonempty: "(k, e) \<in> set locationDatabase \<Longrightarrow> k \<noteq> []"
  by (auto simp: locationDatabase_def)

section \<open>The parser: exact matches\<close>

lemma parse_own:
  assumes "trim locationText \<noteq> []"
    and "map_of db (trim (toLowerCase locationText)) = Some data"
  shows "parseLocationInput db rnd locationText =
    Some \<lparr>rlat = Some (lat data), rlng = Some (lng data), rtype = Some (type data),
          rname = trim locationText, confidence = Exact, match = None\<rparr>"
proof -
  from assms(1) have "locationText \<noteq> []" by (rule trim_nonempty)
  with assms show ?thesis
    by (simp add: parseLocationInput_def getProperty_def)
qed

text \<open>
  C3. An input whose trimmed, lower-cased text is a key of the location database resolves
  with confidence \<open>Exact\<close>, the coordinates and the category of that key's entry, and the
  trimmed input as its name. Nothing is asked about the other keys, so the exact match
  wins whether or not other keys contain the text or are contained in it.
\<close>

theorem exact_match:
  assumes "(key, data) \<in> set locationDatabase"
    and "trim (toLowerCase locationText) = key"
  shows "parseLocationInput locationDatabase rnd locationText =
    Some \<lparr>rlat = Some (lat data), rlng = Some (lng data), rtype = Some (type data),
          rname = trim locationText, confidence = Exact, match = None\<rparr>"
proof -
  have "map_of locationDatabase key = Some data"
    using distinct_keys assms(1) by (rule map_of_is_SomeI)
  moreover have "trim locationText \<noteq> []"
    using keys_nonempty [OF assms(1)] assms(2) trim_toLowerCase_Nil [of locationText] by simp
  ultimately show ?thesis
    using assms(2) by (simp add: parse_own)
qed

text \<open>
  The input \<open>"  DownTown "\<close>: its normalized text is the key \<open>downtown\<close>, which the
  earlier key \<open>downtown plaza\<close> contains, and the result is the exact match.
\<close>

theorem exact_match_witness:
  "(''downtown'', \<lparr>lat = 3, lng = 3, type = Business\<rparr>) \<in> set locationDatabase
   \<and> trim (toLowerCase ''  DownTown '') = ''downtown''
   \<and> includesStr ''downtown plaza'' ''downtown''
   \<and> parseLocationInput locationDatabase (0, 0) ''  DownTown '' =
       Some \<lparr>rlat = Some 3, rlng = Some 3, rtype = Some Business,
             rname = ''DownTown'', confidence = Exact, match = None\<rparr>"
proof -
  have a: "(''downtown'', \<lparr>lat = 3, lng = 3, type = Business\<rparr>) \<in> set locationDatabase"
    by (simp add: locationDatabase_def)
  have b: "trim (toLowerCase ''  DownTown '') = ''downtown''"
    by code_simp
  have c: "trim ''  DownTown '' = ''DownTown''"
    by code_simp
  have d: "includesStr ''downtown plaza'' ''downtown''"
    by code_simp
  show ?thesis
    using exact_match [OF a b, of "(0, 0)"] a b c d by simp
qed

section \<open>The parser: empty input\<close>

lemma parse_None_iff: "parseLocationInput db rnd locationText = None \<longleftrightarrow> trim locationText = []"
proof (cases "trim locationText = []")
  case True
  then show ?thesis by (simp add: parseLocationInput_def)
next
  case False
  then have "locationText \<noteq> []" by (rule trim_nonempty)
  with False show ?thesis
    by (simp add: parseLocationInput_def Let_def
        split: property.split list.split option.split prod.split)
qed

text \<open>
  C5. The parser returns \<open>null\<close> exactly for the inputs that are empty after trimming,
  so that is its only failure. For such a value of the input field
  \<open>updateUserLocation\<close> shows an error and changes nothing else: \<open>userLocation\<close> is
  what it was.
\<close>

theorem empty_input:
  "(parseLocationInput db rnd locationText = None \<longleftrightarrow> trim locationText = [])
   \<and> (trim (inputValue st) = [] \<longrightarrow>
        updateUserLocation db rnd backend render st = showError PleaseEnterLocation st
        \<and> userLocation (updateUserLocation db rnd backend render st) = userLocation st)"
  by (simp add: parse_None_iff updateUserLocation_def showError_def)

theorem empty_input_witness:
  "trim ''    '' = []
   \<and> parseLocationInput locationDatabase (0, 0) ''    '' = None
   \<and> userLocation
        (updateUserLocation locationDatabase (0, 0) (\<lambda>req. FetchRejects :: nat fetched)
           (\<lambda>v u d. None :: nat option) (initial\<lparr>inputValue := ''    ''\<rparr>))
      = \<lparr>ulat = Some 3, ulng = Some 3, uname = ''Downtown Plaza''\<rparr>"
proof -
  have t: "trim ''    '' = []" by code_simp
  show ?thesis
    using t empty_input [of locationDatabase "(0, 0)" "''    ''"
        "initial\<lparr>inputValue := ''    ''\<rparr>" "\<lambda>req. FetchRejects :: nat fetched"
        "\<lambda>v u d. None :: nat option"]
    by (simp add: initial_def showError_def)
qed

section \<open>The parser: partial matches\<close>

lemma partialMatches_confidence:
  "m \<in> set (partialMatches db n) \<Longrightarrow> confidence m = Partial"
  by (induction db n rule: partialMatches.induct) (auto split: if_splits)


lemma partialMatches_first_ex:
  assumes "\<exists>(k, e)\<in>set db. includesStr k n \<or> includesStr n k"
  shows "\<exists>i<length db.
           (includesStr (fst (db ! i)) n \<or> includesStr n (fst (db ! i)))
           \<and> (\<forall>j<i. \<not> (includesStr (fst (db ! j)) n \<or> includesStr n (fst (db ! j))))
           \<and> (\<exists>rest. partialMatches db n =
                 \<lparr>rlat = Some (lat (snd (db ! i))), rlng = Some (lng (snd (db ! i))),
                  rtype = Some (type (snd (db ! i))), rname = fst (db ! i),
                  confidence = Partial, match = Some (fst (db ! i))\<rparr> # rest)"
  using assms
proof (induction db)
  case Nil
  then show ?case by simp
next
  case (Cons p db)
  obtain k e where p: "p = (k, e)" by (cases p)
  show ?case
  proof (cases "includesStr k n \<or> includesStr n k")
    case True
    have "0 < length (p # db)" by simp
    moreover have "includesStr (fst ((p # db) ! 0)) n \<or> includesStr n (fst ((p # db) ! 0))"
      using True p by simp
    moreover have "\<exists>rest. partialMatches (p # db) n =
                 \<lparr>rlat = Some (lat (snd ((p # db) ! 0))), rlng = Some (lng (snd ((p # db) ! 0))),
                  rtype = Some (type (snd ((p # db) ! 0))), rname = fst ((p # db) ! 0),
                  confidence = Partial, match = Some (fst ((p # db) ! 0))\<rparr> # rest"
      using True p by auto
    ultimately show ?thesis by blast
  next
    case False
    with Cons.prems p have "\<exists>(k, e)\<in>set db. includesStr k n \<or> includesStr n k" by auto
    from Cons.IH [OF this] obtain i rest where i: "i < length db"
      and q: "includesStr (fst (db ! i)) n \<or> includesStr n (fst (db ! i))"
      and f: "\<forall>j<i. \<not> (includesStr (fst (db ! j)) n \<or> includesStr n (fst (db ! j)))"
      and r: "partialMatches db n =
                 \<lparr>rlat = Some (lat (snd (db ! i))), rlng = Some (lng (snd (db ! i))),
                  rtype = Some (type (snd (db ! i))), rname = fst (db ! i),
                  confidence = Partial, match = Some (fst (db ! i))\<rparr> # rest"
      by blast
    have "Suc i < length (p # db)" using i by simp
    moreover have "includesStr (fst ((p # db) ! Suc i)) n \<or> includesStr n (fst ((p # db) ! Suc i))"
      using q by simp
    moreover have "\<forall>j<Suc i. \<not> (includesStr (fst ((p # db) ! j)) n
                                 \<or> includesStr n (fst ((p # db) ! j)))"
      using f False p by (simp add: All_less_Suc2)
    moreover have "\<exists>rest. partialMatches (p # db) n =
                 \<lparr>rlat = Some (lat (snd ((p # db) ! Suc i))),
                  rlng = Some (lng (snd ((p # db) ! Suc i))),
                  rtype = Some (type (snd ((p # db) ! Suc i))), rname = fst ((p # db) ! Suc i),
                  confidence = Partial, match = Some (fst ((p # db) ! Suc i))\<rparr> # rest"
      using r False p by simp
    ultimately show ?thesis by blast
  qed
qed

lemma inherited_no_partial:
  "partialMatches locationDatabase ''constructor'' = []"
  "partialMatches locationDatabase ''__proto__'' = []"
  by code_simp+

lemma getProperty_Absent:
  assumes "trim (toLowerCase locationText) \<notin> fst ` set locationDatabase"
    and "partialMatches locationDatabase (trim (toLowerCase locationText)) \<noteq> []"
  shows "getProperty locationDatabase (trim (toLowerCase locationText)) = Absent"
proof -
  have "map_of locationDatabase (trim (toLowerCase locationText)) = None"
    using assms(1) by (simp add: map_of_eq_None_iff)
  moreover have "trim (toLowerCase locationText) \<noteq> ''constructor''"
    and "trim (toLowerCase locationText) \<noteq> ''__proto__''"
    using assms(2) inherited_no_partial by auto
  ultimately show ?thesis by (simp add: getProperty_def)
qed

text \<open>
  C2, as stated, at the input of three spaces: its normalized text is the empty string,
  which is no key and which every key contains, and the parser returns \<open>null\<close>, not a
  partial match. The check for an empty input comes first.
\<close>

theorem blank_counterexample:
  "trim (toLowerCase ''   '') \<notin> fst ` set locationDatabase
   \<and> includesStr ''downtown plaza'' (trim (toLowerCase ''   ''))
   \<and> parseLocationInput locationDatabase (0, 0) ''   '' = None"
  by code_simp

text \<open>
  C2, amended: for an input that is not empty after trimming, whose normalized text is no
  key while some key contains it or is contained in it, the parser returns the partial
  match for the first such key: there is a position \<open>i\<close> of the database whose key
  qualifies, no key before it does, and the result has confidence \<open>Partial\<close>, name and
  \<open>match\<close> set to that key, and the coordinates and category of its entry.
\<close>

theorem partial_match:
  assumes "trim locationText \<noteq> []"
    and "trim (toLowerCase locationText) \<notin> fst ` set locationDatabase"
    and "\<exists>(k, e)\<in>set locationDatabase.
           includesStr k (trim (toLowerCase locationText))
           \<or> includesStr (trim (toLowerCase locationText)) k"
  shows "\<exists>i<length locationDatabase.
           (includesStr (fst (locationDatabase ! i)) (trim (toLowerCase locationText))
            \<or> includesStr (trim (toLowerCase locationText)) (fst (locationDatabase ! i)))
           \<and> (\<forall>j<i. \<not> (includesStr (fst (locationDatabase ! j)) (trim (toLowerCase locationText))
                        \<or> includesStr (trim (toLowerCase locationText)) (fst (locationDatabase ! j))))
           \<and> parseLocationInput locationDatabase rnd locationText =
               Some \<lparr>rlat = Some (lat (snd (locationDatabase ! i))),
                     rlng = Some (lng (snd (locationDatabase ! i))),
                     rtype = Some (type (snd (locationDatabase ! i))),
                     rname = fst (locationDatabase ! i),
                     confidence = Partial, match = Some (fst (locationDatabase ! i))\<rparr>"
proof -
  let ?n = "trim (toLowerCase locationText)"
  from partialMatches_first_ex [OF assms(3)]
  obtain i rest where i: "i < length locationDatabase"
    and q: "includesStr (fst (locationDatabase ! i)) ?n \<or> includesStr ?n (fst (locationDatabase ! i))"
    and f: "\<forall>j<i. \<not> (includesStr (fst (locationDatabase ! j)) ?n
                    \<or> includesStr ?n (fst (locationDatabase ! j)))"
    and pm: "partialMatches locationDatabase ?n =
                 \<lparr>rlat = Some (lat (snd (locationDatabase ! i))),
                  rlng = Some (lng (snd (locationDatabase ! i))),
                  rtype = Some (type (snd (locationDatabase ! i))),
                  rname = fst (locationDatabase ! i),
                  confidence = Partial, match = Some (fst (locationDatabase ! i))\<rparr> # rest"
    by blast
  from pm have "partialMatches locationDatabase ?n \<noteq> []" by simp
  with assms(2) have ab: "getProperty locationDatabase ?n = Absent"
    by (rule getProperty_Absent)
  from assms(1) have "locationText \<noteq> []" by (rule trim_nonempty)
  with assms(1) ab pm have "parseLocationInput locationDatabase rnd locationText =
               Some \<lparr>rlat = Some (lat (snd (locationDatabase ! i))),
                     rlng = Some (lng (snd (locationDatabase ! i))),
                     rtype = Some (type (snd (locationDatabase ! i))),
                     rname = fst (locationDatabase ! i),
                     confidence = Partial, match = Some (fst (locationDatabase ! i))\<rparr>"
    by (simp add: parseLocationInput_def)
  with i q f show ?thesis by blast
qed

text \<open>
  The input \<open>"the Park near Mall"\<close> contains the keys \<open>park\<close> and \<open>mall\<close>; \<open>mall\<close>
  comes first in the database and is the one returned.
\<close>

theorem partial_match_witness:
  "trim ''the Park near Mall'' \<noteq> []
   \<and> trim (toLowerCase ''the Park near Mall'') \<notin> fst ` set locationDatabase
   \<and> fst (locationDatabase ! 6) = ''mall'' \<and> fst (locationDatabase ! 9) = ''park''
   \<and> includesStr (trim (toLowerCase ''the Park near Mall'')) ''mall''
   \<and> includesStr (trim (toLowerCase ''the Park near Mall'')) ''park''
   \<and> parseLocationInput locationDatabase (0, 0) ''the Park near Mall'' =
       Some \<lparr>rlat = Some 8, rlng = Some 7, rtype = Some Shopping,
             rname = ''mall'', confidence = Partial, match = Some ''mall''\<rparr>
   \<and> (\<exists>i<length locationDatabase.
         (\<forall>j<i. \<not> (includesStr (fst (locationDatabase ! j)) (trim (toLowerCase ''the Park near Mall''))
                      \<or> includesStr (trim (toLowerCase ''the Park near Mall'')) (fst (locationDatabase ! j))))
         \<and> parseLocationInput locationDatabase (0, 0) ''the Park near Mall'' =
               Some \<lparr>rlat = Some (lat (snd (locationDatabase ! i))),
                     rlng = Some (lng (snd (locationDatabase ! i))),
                     rtype = Some (type (snd (locationDatabase ! i))),
                     rname = fst (locationDatabase ! i),
                     confidence = Partial, match = Some (fst (locationDatabase ! i))\<rparr>)"
proof -
  have a: "trim ''the Park near Mall'' \<noteq> []" by code_simp
  have b: "trim (toLowerCase ''the Park near Mall'') \<notin> fst ` set locationDatabase" by code_simp
  have c: "\<exists>(k, e)\<in>set locationDatabase.
           includesStr k (trim (toLowerCase ''the Park near Mall''))
           \<or> includesStr (trim (toLowerCase ''the Park near Mall'')) k" by code_simp
  have d: "fst (locationDatabase ! 6) = ''mall'' \<and> fst (locationDatabase ! 9) = ''park''"
    by (simp add: locationDatabase_def)
  have e: "includesStr (trim (toLowerCase ''the Park near Mall'')) ''mall''" by code_simp
  have e': "includesStr (trim (toLowerCase ''the Park near Mall'')) ''park''" by code_simp
  have v: "parseLocationInput locationDatabase (0, 0) ''the Park near Mall'' =
       Some \<lparr>rlat = Some 8, rlng = Some 7, rtype = Some Shopping,
             rname = ''mall'', confidence = Partial, match = Some ''mall''\<rparr>" by code_simp
  from partial_match [OF a b c, of "(0, 0)"]
  have w: "\<exists>i<length locationDatabase.
         (\<forall>j<i. \<not> (includesStr (fst (locationDatabase ! j)) (trim (toLowerCase ''the Park near Mall''))
                      \<or> includesStr (trim (toLowerCase ''the Park near Mall'')) (fst (locationDatabase ! j))))
         \<and> parseLocationInput locationDatabase (0, 0) ''the Park near Mall'' =
               Some \<lparr>rlat = Some (lat (snd (locationDatabase ! i))),
                     rlng = Some (lng (snd (locationDatabase ! i))),
                     rtype = Some (type (snd (locationDatabase ! i))),
                     rname = fst (locationDatabase ! i),
                     confidence = Partial, match = Some (fst (locationDatabase ! i))\<rparr>"
    by blast
  from a b d e e' v w show ?thesis by blast
qed

section \<open>The parser: coordinates and the fallback\<close>














section \<open>The parser and the random source\<close>

text \<open>
  C9, as stated, at the input \<open>"nowhere"\<close>, which reaches the fallback: two evaluations
  with different draws of \<open>Math.random\<close> return different results.
\<close>

theorem random_counterexample:
  "parseLocationInput locationDatabase (0, 0) ''nowhere''
   \<noteq> parseLocationInput locationDatabase (1 / 2, 1 / 2) ''nowhere''"
  by code_simp

text \<open>
  C9, amended: the parser is a function of the text, the database and the two random
  draws. When the result is not the fallback (it is \<open>null\<close>, or its confidence is not
  \<open>Estimated\<close>), it is the same for any draws; when it is the fallback, it is the fallback
  for any draws, with the coordinates those draws give.
\<close>

theorem parse_random:
  "((\<forall>r. parseLocationInput db rnd locationText = Some r \<longrightarrow> confidence r \<noteq> Estimated) \<longrightarrow>
      parseLocationInput db rnd' locationText = parseLocationInput db rnd locationText)
   \<and> (\<forall>r. parseLocationInput db rnd locationText = Some r \<and> confidence r = Estimated \<longrightarrow>
         r = estimated rnd locationText
         \<and> parseLocationInput db rnd' locationText = Some (estimated rnd' locationText))"
proof -
  have pc: "\<And>m ms. partialMatches db (trim (toLowerCase locationText)) = m # ms
              \<Longrightarrow> confidence m = Partial"
    using partialMatches_confidence [of _ db "trim (toLowerCase locationText)"] by simp
  have ec: "\<And>r. confidence (estimated r locationText) = Estimated"
    by (simp add: estimated_def)
  show ?thesis
    using pc ec
    by (auto simp: parseLocationInput_def Let_def
        split: property.splits list.splits option.splits prod.splits if_splits)
qed

theorem parse_random_witness:
  "parseLocationInput locationDatabase (1 / 2, 1 / 2) ''3.5, 4.2'' =
       Some \<lparr>rlat = Some (7 / 2), rlng = Some (21 / 5), rtype = Some Custom,
             rname = ''3.5, 4.2'', confidence = Coordinates, match = None\<rparr>
   \<and> parseLocationInput locationDatabase (1 / 2, 1 / 2) ''nowhere'' =
       Some \<lparr>rlat = Some 10, rlng = Some (15 / 2), rtype = Some Unknown,
             rname = ''nowhere'', confidence = Estimated, match = None\<rparr>"
proof -
  have v: "parseLocationInput locationDatabase (0, 0) ''3.5, 4.2'' =
       Some \<lparr>rlat = Some (7 / 2), rlng = Some (21 / 5), rtype = Some Custom,
             rname = ''3.5, 4.2'', confidence = Coordinates, match = None\<rparr>"
    by code_simp
  have w: "parseLocationInput locationDatabase (0, 0) ''nowhere'' =
       Some \<lparr>rlat = Some 0, rlng = Some 0, rtype = Some Unknown,
             rname = ''nowhere'', confidence = Estimated, match = None\<rparr>"
    by code_simp
  have t: "trim ''nowhere'' = ''nowhere''" by code_simp
  show ?thesis
    using parse_random [of locationDatabase "(0, 0)" "''3.5, 4.2''" "(1 / 2, 1 / 2)"]
      parse_random [of locationDatabase "(0, 0)" "''nowhere''" "(1 / 2, 1 / 2)"] v w t
    by (simp add: estimated_def)
qed

section \<open>Refreshing the views\<close>

lemma setView_fields:
  "userLocation (setView v c st) = userLocation st"
  "notifications (setView v c st) = notifications st"
  "lastUpdated (setView v c st) = lastUpdated st"
  "timers (setView v c st) = timers st"
  "updateInterval (setView v c st) = updateInterval st"
  "nextTimer (setView v c st) = nextTimer st"
  "inputValue (setView v c st) = inputValue st"
  "locationStatus (setView v c st) = locationStatus st"
  "views (setView v c st) w = (if w = v then c else views st w)"
  by (simp_all add: setView_def)

lemma setView_same: "setView v (views st v) st = st"
  by (simp add: setView_def)

lemma unit_settles:
  assumes "u = updateSystemStats backend render \<and> v = SystemStats
         \<or> u = updateParkingLots backend render \<and> v = ParkingLots
         \<or> u = updateRecommendations backend render \<and> v = Recommendations
         \<or> u = updateJunctions backend render \<and> v = Junctions
         \<or> u = updatePredictions backend render \<and> v = Predictions
         \<or> u = updateMap backend render \<and> v = MapView"
  shows "\<exists>c. u st = Inr (setView v c st)
           \<and> (\<forall>d h. backend (endpoint (userLocation st) v) = Response True d
                    \<and> render v (userLocation st) d = Some h \<longrightarrow> c = Rendered h)
           \<and> ((\<exists>d h. backend (endpoint (userLocation st) v) = Response True d
                    \<and> render v (userLocation st) d = Some h)
               \<or> c = ErrorBox \<or> c = views st v)"
proof -
  let ?B = "backend (endpoint (userLocation st) v)"
  let ?F = "fetchAndRender backend render v st"
  have split: "(\<exists>d h. ?B = Response True d \<and> render v (userLocation st) d = Some h
                  \<and> ?F = Inr (setView v (Rendered h) st))
             \<or> (\<not> (\<exists>d h. ?B = Response True d \<and> render v (userLocation st) d = Some h)
                  \<and> (\<exists>e. ?F = Inl e))"
  proof (cases ?B)
    case FetchRejects
    then show ?thesis by (simp add: fetchAndRender_def)
  next
    case JsonRejects
    then show ?thesis by (simp add: fetchAndRender_def)
  next
    case (Response ok d)
    then show ?thesis
      by (cases ok; cases "render v (userLocation st) d") (simp_all add: fetchAndRender_def)
  qed
  have same: "st = setView v (views st v) st"
    by (simp add: setView_same)
  from split show ?thesis
  proof (elim disjE exE conjE)
    fix d h
    assume ok: "?B = Response True d" "render v (userLocation st) d = Some h"
      and F: "?F = Inr (setView v (Rendered h) st)"
    from assms F have "u st = Inr (setView v (Rendered h) st)"
      by (auto simp: tryCatch_def updateSystemStats_def updateParkingLots_def
          updateRecommendations_def updateJunctions_def updatePredictions_def updateMap_def)
    with ok show ?thesis by auto
  next
    fix e
    assume no: "\<not> (\<exists>d h. ?B = Response True d \<and> render v (userLocation st) d = Some h)"
      and F: "?F = Inl e"
    from assms F
    have "u st = Inr (setView v ErrorBox st) \<or> u st = Inr st"
      by (auto simp: tryCatch_def updateSystemStats_def updateParkingLots_def
          updateRecommendations_def updateJunctions_def updatePredictions_def updateMap_def)
    with no same show ?thesis by metis
  qed
qed

lemma refresh_settles:
  "\<exists>c. promiseAll (refreshUnits backend render) st = (None, st\<lparr>views := c\<rparr>)
       \<and> (\<forall>v d h. backend (endpoint (userLocation st) v) = Response True d
                    \<and> render v (userLocation st) d = Some h \<longrightarrow> c v = Rendered h)
       \<and> (\<forall>v. (\<exists>d h. backend (endpoint (userLocation st) v) = Response True d
                    \<and> render v (userLocation st) d = Some h)
               \<or> c v = ErrorBox \<or> c v = views st v)"
proof -
  let ?ok = "\<lambda>v c. (\<forall>d h. backend (endpoint (userLocation st) v) = Response True d
                    \<and> render v (userLocation st) d = Some h \<longrightarrow> c = Rendered h)
           \<and> ((\<exists>d h. backend (endpoint (userLocation st) v) = Response True d
                    \<and> render v (userLocation st) d = Some h)
               \<or> c = ErrorBox \<or> c = views st v)"
  obtain c1 where u1: "updateSystemStats backend render st = Inr (setView SystemStats c1 st)"
    and p1: "?ok SystemStats c1"
    using unit_settles [of "updateSystemStats backend render" backend render SystemStats st]
    by auto
  let ?s1 = "setView SystemStats c1 st"
  obtain c2 where u2: "updateParkingLots backend render ?s1 = Inr (setView ParkingLots c2 ?s1)"
    and p2: "?ok ParkingLots c2"
    using unit_settles [of "updateParkingLots backend render" backend render ParkingLots ?s1]
    by (auto simp: setView_fields)
  let ?s2 = "setView ParkingLots c2 ?s1"
  obtain c3 where u3: "updateRecommendations backend render ?s2 = Inr (setView Recommendations c3 ?s2)"
    and p3: "?ok Recommendations c3"
    using unit_settles [of "updateRecommendations backend render" backend render Recommendations ?s2]
    by (auto simp: setView_fields)
  let ?s3 = "setView Recommendations c3 ?s2"
  obtain c4 where u4: "updateJunctions backend render ?s3 = Inr (setView Junctions c4 ?s3)"
    and p4: "?ok Junctions c4"
    using unit_settles [of "updateJunctions backend render" backend render Junctions ?s3]
    by (auto simp: setView_fields)
  let ?s4 = "setView Junctions c4 ?s3"
  obtain c5 where u5: "updatePredictions backend render ?s4 = Inr (setView Predictions c5 ?s4)"
    and p5: "?ok Predictions c5"
    using unit_settles [of "updatePredictions backend render" backend render Predictions ?s4]
    by (auto simp: setView_fields)
  let ?s5 = "setView Predictions c5 ?s4"
  obtain c6 where u6: "updateMap backend render ?s5 = Inr (setView MapView c6 ?s5)"
    and p6: "?ok MapView c6"
    using unit_settles [of "updateMap backend render" backend render MapView ?s5]
    by (auto simp: setView_fields)
  let ?s6 = "setView MapView c6 ?s5"
  let ?c = "\<lambda>v. case v of SystemStats \<Rightarrow> c1 | ParkingLots \<Rightarrow> c2 | Recommendations \<Rightarrow> c3
                 | Junctions \<Rightarrow> c4 | Predictions \<Rightarrow> c5 | MapView \<Rightarrow> c6"
  have run: "promiseAll (refreshUnits backend render) st = (None, ?s6)"
    by (simp add: refreshUnits_def u1 u2 u3 u4 u5 u6)
  have "views ?s6 = ?c"
  proof
    fix v show "views ?s6 v = ?c v"
      by (cases v) (simp_all add: setView_fields)
  qed
  then have "?s6 = st\<lparr>views := ?c\<rparr>"
    by (simp add: setView_def)
  with run have "promiseAll (refreshUnits backend render) st = (None, st\<lparr>views := ?c\<rparr>)"
    by simp
  moreover have "\<And>v. ?ok v (?c v)"
  proof -
    fix v show "?ok v (?c v)"
    proof (cases v)
      case SystemStats
      show ?thesis unfolding SystemStats view.case by (rule p1)
    next
      case ParkingLots
      show ?thesis unfolding ParkingLots view.case by (rule p2)
    next
      case Recommendations
      show ?thesis unfolding Recommendations view.case by (rule p3)
    next
      case Junctions
      show ?thesis unfolding Junctions view.case by (rule p4)
    next
      case Predictions
      show ?thesis unfolding Predictions view.case by (rule p5)
    next
      case MapView
      show ?thesis unfolding MapView view.case by (rule p6)
    qed
  qed
  ultimately show ?thesis by blast
qed

lemma unit_userLocation:
  assumes "u = updateRecommendations backend render \<or> u = updateMap backend render"
  shows "userLocation (detached u st) = userLocation st"
    and "timers (detached u st) = timers st"
    and "updateInterval (detached u st) = updateInterval st"
proof -
  from assms have "\<exists>v. u = updateSystemStats backend render \<and> v = SystemStats
         \<or> u = updateParkingLots backend render \<and> v = ParkingLots
         \<or> u = updateRecommendations backend render \<and> v = Recommendations
         \<or> u = updateJunctions backend render \<and> v = Junctions
         \<or> u = updatePredictions backend render \<and> v = Predictions
         \<or> u = updateMap backend render \<and> v = MapView"
    by auto
  then obtain v where "u = updateSystemStats backend render \<and> v = SystemStats
         \<or> u = updateParkingLots backend render \<and> v = ParkingLots
         \<or> u = updateRecommendations backend render \<and> v = Recommendations
         \<or> u = updateJunctions backend render \<and> v = Junctions
         \<or> u = updatePredictions backend render \<and> v = Predictions
         \<or> u = updateMap backend render \<and> v = MapView" ..
  from unit_settles [OF this, of st] obtain c where "u st = Inr (setView v c st)" by blast
  then show "userLocation (detached u st) = userLocation st"
    and "timers (detached u st) = timers st"
    and "updateInterval (detached u st) = updateInterval st"
    by (simp_all add: detached_def setView_fields)
qed

text \<open>
  C6. Whatever the backend answers to the six requests, every unit catches its own
  failure (its promise is fulfilled), so \<open>Promise.all\<close> is fulfilled, \<open>refreshData\<close> writes
  the time into \<open>last-updated\<close> and shows no notification. A view whose request got an
  \<open>ok\<close> response that its template renders shows that rendering, whatever happened to the
  other units; a view whose unit failed shows the error box or what it showed before.
\<close>

theorem refresh_isolation:
  "(\<forall>u\<in>set (refreshUnits backend render). \<exists>st'. u st = Inr st')
   \<and> fst (promiseAll (refreshUnits backend render) st) = None
   \<and> lastUpdated (refreshData backend render now st) = Some now
   \<and> notifications (refreshData backend render now st) = notifications st
   \<and> (\<forall>v d h. backend (endpoint (userLocation st) v) = Response True d
               \<and> render v (userLocation st) d = Some h
         \<longrightarrow> views (refreshData backend render now st) v = Rendered h)
   \<and> (\<forall>v. (\<exists>d h. backend (endpoint (userLocation st) v) = Response True d
               \<and> render v (userLocation st) d = Some h)
          \<or> views (refreshData backend render now st) v = ErrorBox
          \<or> views (refreshData backend render now st) v = views st v)"
proof -
  have each: "\<forall>u\<in>set (refreshUnits backend render). \<exists>st'. u st = Inr st'"
  proof
    fix u assume "u \<in> set (refreshUnits backend render)"
    then have "\<exists>v. u = updateSystemStats backend render \<and> v = SystemStats
         \<or> u = updateParkingLots backend render \<and> v = ParkingLots
         \<or> u = updateRecommendations backend render \<and> v = Recommendations
         \<or> u = updateJunctions backend render \<and> v = Junctions
         \<or> u = updatePredictions backend render \<and> v = Predictions
         \<or> u = updateMap backend render \<and> v = MapView"
      by (auto simp: refreshUnits_def)
    then obtain v where "u = updateSystemStats backend render \<and> v = SystemStats
         \<or> u = updateParkingLots backend render \<and> v = ParkingLots
         \<or> u = updateRecommendations backend render \<and> v = Recommendations
         \<or> u = updateJunctions backend render \<and> v = Junctions
         \<or> u = updatePredictions backend render \<and> v = Predictions
         \<or> u = updateMap backend render \<and> v = MapView" ..
    from unit_settles [OF this, of st] show "\<exists>st'. u st = Inr st'" by blast
  qed
  obtain c where run: "promiseAll (refreshUnits backend render) st = (None, st\<lparr>views := c\<rparr>)"
    and ok: "\<forall>v d h. backend (endpoint (userLocation st) v) = Response True d
                    \<and> render v (userLocation st) d = Some h \<longrightarrow> c v = Rendered h"
    and other: "\<forall>v. (\<exists>d h. backend (endpoint (userLocation st) v) = Response True d
                    \<and> render v (userLocation st) d = Some h)
               \<or> c v = ErrorBox \<or> c v = views st v"
    using refresh_settles [of backend render st] by blast
  have rd: "refreshData backend render now st = st\<lparr>views := c, lastUpdated := Some now\<rparr>"
    by (simp add: refreshData_def run)
  show ?thesis
    using each ok other by (simp add: rd run)
qed

text \<open>
  A run where the request for the recommendations is rejected and the five others are
  answered: the recommendations show the error box, the others are rendered, and the time
  is written.
\<close>

theorem refresh_isolation_witness:
  "updateRecommendations (\<lambda>req. case req of GetRecommendations a b \<Rightarrow> FetchRejects | _ \<Rightarrow> Response True (7::nat))
      (\<lambda>v u d. Some d) (initial :: nat dashboard)
     = Inr (setView Recommendations ErrorBox initial)
   \<and> lastUpdated (refreshData (\<lambda>req. case req of GetRecommendations a b \<Rightarrow> FetchRejects | _ \<Rightarrow> Response True (7::nat))
        (\<lambda>v u d. Some d) ''12:00:00'' (initial :: nat dashboard)) = Some ''12:00:00''
   \<and> notifications (refreshData (\<lambda>req. case req of GetRecommendations a b \<Rightarrow> FetchRejects | _ \<Rightarrow> Response True (7::nat))
        (\<lambda>v u d. Some d) ''12:00:00'' (initial :: nat dashboard)) = []
   \<and> map (views (refreshData (\<lambda>req. case req of GetRecommendations a b \<Rightarrow> FetchRejects | _ \<Rightarrow> Response True (7::nat))
        (\<lambda>v u d. Some d) ''12:00:00'' (initial :: nat dashboard)))
        [SystemStats, ParkingLots, Junctions, Predictions, MapView]
      = [Rendered 7, Rendered 7, Rendered 7, Rendered 7, Rendered 7]"
proof -
  let ?B = "\<lambda>req. case req of GetRecommendations a b \<Rightarrow> FetchRejects | _ \<Rightarrow> Response True (7::nat)"
  let ?R = "\<lambda>(v::view) (u::user_location) (d::nat). Some d"
  have rec: "updateRecommendations ?B ?R (initial :: nat dashboard)
     = Inr (setView Recommendations ErrorBox initial)"
    by (simp add: updateRecommendations_def fetchAndRender_def tryCatch_def)
  have ok: "\<And>v. v \<noteq> Recommendations \<Longrightarrow>
      ?B (endpoint (userLocation (initial :: nat dashboard)) v) = Response True 7
      \<and> ?R v (userLocation (initial :: nat dashboard)) 7 = Some 7"
  proof -
    fix v :: view assume "v \<noteq> Recommendations"
    then show "?B (endpoint (userLocation (initial :: nat dashboard)) v) = Response True 7
      \<and> ?R v (userLocation (initial :: nat dashboard)) 7 = Some 7"
      by (cases v) simp_all
  qed
  show ?thesis
    using refresh_isolation [of ?B ?R "initial :: nat dashboard" "''12:00:00''"] rec
      ok [of SystemStats] ok [of ParkingLots] ok [of Junctions] ok [of Predictions] ok [of MapView]
    by (simp add: initial_def)
qed

section \<open>The GPS position\<close>

text \<open>
  C7. The coordinates the success callback computes are those of the transform of the
  specification; the GPS position \<open>(40, -74)\<close> gives \<open>(10, 7.5)\<close>; and these
  coordinates are what the callback stores in \<open>userLocation\<close>, with the name of the nearest
  known location.
\<close>

theorem gps_transform:
  "(clampedLat gpsLat, clampedLng gpsLng) = toLocalSpace_spec gpsLat gpsLng
   \<and> (clampedLat 40, clampedLng (- 74)) = (10, 15 / 2)
   \<and> userLocation (onPosition db backend render gpsLat gpsLng st) =
       \<lparr>ulat = Some (fst (toLocalSpace_spec gpsLat gpsLng)),
        ulng = Some (snd (toLocalSpace_spec gpsLat gpsLng)),
        uname = nname (findNearestLocation db (fst (toLocalSpace_spec gpsLat gpsLng))
                         (snd (toLocalSpace_spec gpsLat gpsLng)))\<rparr>"
proof -
  have eq: "(clampedLat gpsLat, clampedLng gpsLng) = toLocalSpace_spec gpsLat gpsLng"
    by (simp add: clampedLat_def clampedLng_def cityLat_def cityLng_def toLocalSpace_spec_def
        clamp_spec_def max_def min_def)
  have c: "(clampedLat 40, clampedLng (- 74)) = (10, 15 / 2)"
    by (simp add: clampedLat_def clampedLng_def cityLat_def cityLng_def)
  have "userLocation (onPosition db backend render gpsLat gpsLng st) =
       \<lparr>ulat = Some (clampedLat gpsLat), ulng = Some (clampedLng gpsLng),
        uname = nname (findNearestLocation db (clampedLat gpsLat) (clampedLng gpsLng))\<rparr>"
    by (simp add: onPosition_def Let_def showSuccess_def
        unit_userLocation [of _ backend render])
  with eq c show ?thesis
    by (metis fst_conv snd_conv)
qed

section \<open>The update timer: starting twice\<close>

text \<open>Every call of \<open>startRealTimeUpdates\<close> arms one more timer.\<close>

lemma start_arms: "timers (startRealTimeUpdates st) = timers st @ [nextTimer st]"
  by (simp add: startRealTimeUpdates_def setInterval_def)

text \<open>
  C1. \<open>startRealTimeUpdates\<close> has no guard: from the initial state, stop, start, start
  leaves two timers armed. \<open>updateInterval\<close> holds the handle of the second only, so a
  later stop clears that one and the first keeps firing.
\<close>

theorem timer_leak:
  "timers (startRealTimeUpdates (startRealTimeUpdates (stopRealTimeUpdates (initial :: nat dashboard))))
     = [1, 2]
   \<and> updateInterval (startRealTimeUpdates (startRealTimeUpdates (stopRealTimeUpdates (initial :: nat dashboard))))
     = Some 2
   \<and> timers (stopRealTimeUpdates
        (startRealTimeUpdates (startRealTimeUpdates (stopRealTimeUpdates (initial :: nat dashboard)))))
     = [1]"
  by (simp add: startRealTimeUpdates_def stopRealTimeUpdates_def setInterval_def
      clearInterval_def initial_def)

section \<open>The nearest known location: first minimum\<close>




end
